theory Spec2Isabelle
  imports Main "HOL-Library.AList"
begin

section \<open>JavaScript values\<close>

text \<open>
  The values that flow through the loader and the registry: JSON data read from schema
  files and configuration, plus functions (identified by a label).  Plain objects keep
  their keys in insertion order, so they are association lists.  Throughout, a plain
  object used as a dictionary is read by its own keys only: keys that name members of
  \<open>Object.prototype\<close> and the key \<open>undefined\<close> are outside the model.
\<close>

datatype jsval =
    Undefined
  | Null
  | JBool bool
  | JNum int
  | JStr string
  | JArr "jsval list"
  | JObj "(string \<times> jsval) list"
  | JFun string

text \<open>A reference to a data source: a plain value, or an instance of \<open>DataSource\<close>.\<close>

datatype ds_ref = DsVal jsval | DsInstance string

datatype error = Error string | TypeError string | AssertionError string

text \<open>What the run leaves behind besides its result: diagnostics, and the calls of
  customization scripts (script, model).\<close>

datatype log = Debug string | Warn string | Called string string

fun truthy :: "jsval \<Rightarrow> bool" where
  "truthy Undefined = False"
| "truthy Null = False"
| "truthy (JBool b) = b"
| "truthy (JNum n) = (n \<noteq> 0)"
| "truthy (JStr s) = (s \<noteq> [])"
| "truthy (JArr xs) = True"
| "truthy (JObj kvs) = True"
| "truthy (JFun f) = True"

fun truthy_ds :: "ds_ref \<Rightarrow> bool" where
  "truthy_ds (DsVal v) = truthy v"
| "truthy_ds (DsInstance n) = True"

text \<open>\<open>typeof v === 'object' && v !== null\<close>\<close>

fun is_object :: "jsval \<Rightarrow> bool" where
  "is_object (JArr xs) = True"
| "is_object (JObj kvs) = True"
| "is_object v = False"

text \<open>\<open>v != null\<close> (loose): neither \<open>null\<close> nor \<open>undefined\<close>.\<close>

fun not_nullish :: "jsval \<Rightarrow> bool" where
  "not_nullish Undefined = False"
| "not_nullish Null = False"
| "not_nullish v = True"

function string_of_nat :: "nat \<Rightarrow> string" where
  "string_of_nat n =
     (if n < 10 then [char_of (48 + n)]
      else string_of_nat (n div 10) @ [char_of (48 + n mod 10)])"
  by pat_completeness auto
termination
  by (relation "measure id") auto

text \<open>The enumerable own properties of an object, in enumeration order; an array
  enumerates its indices.\<close>

fun entries :: "jsval \<Rightarrow> (string \<times> jsval) list" where
  "entries (JObj kvs) = kvs"
| "entries (JArr xs) = zip (map string_of_nat [0..<length xs]) xs"
| "entries v = []"

text \<open>\<open>obj[k]\<close> on a plain object.\<close>

definition get_prop :: "(string \<times> jsval) list \<Rightarrow> string \<Rightarrow> jsval" where
  "get_prop kvs k = (case map_of kvs k of None \<Rightarrow> Undefined | Some v \<Rightarrow> v)"

text \<open>\<open>obj[k] = v\<close>: an existing key keeps its place, a new key goes last.\<close>

definition obj_set :: "(string \<times> 'v) list \<Rightarrow> string \<Rightarrow> 'v \<Rightarrow> (string \<times> 'v) list" where
  "obj_set kvs k v = AList.update k v kvs"

section \<open>The registry: configuring a model\<close>

record model_settings =
  set_relations :: "(string \<times> jsval) list option"
  set_acls :: "jsval list option"
  set_other :: "(string \<times> jsval) list"

record model_ctor =
  modelName :: string
  settings :: model_settings
  attachedTo :: "string option"
  isModel :: bool

record model_config =
  cfg_relations :: jsval
  cfg_acls :: jsval
  cfg_options :: jsval
  cfg_dataSource :: ds_ref

text \<open>The keys that \<open>configureModel\<close> refuses to take from \<open>config.options\<close>.\<close>

definition excludedProperties :: "string list" where
  "excludedProperties = [''base'', ''super'', ''relations'', ''acls'', ''dataSource'']"

text \<open>The loop \<open>for (var p in config.options)\<close>: state is the settings and the log.\<close>

definition msg_cannot_reconfigure :: "string \<Rightarrow> string \<Rightarrow> string" where
  "msg_cannot_reconfigure p mn = ''Property `'' @ p @ ''` cannot be reconfigured for `'' @ mn @ ''`''"

fun copyOptions ::
  "string \<Rightarrow> (string \<times> jsval) list \<Rightarrow> (string \<times> jsval) list \<times> log list
     \<Rightarrow> (string \<times> jsval) list \<times> log list" where
  "copyOptions mn [] st = st"
| "copyOptions mn ((p, v) # rest) (other, lg) =
     (if p \<notin> set excludedProperties
      then copyOptions mn rest (obj_set other p v, lg)
      else copyOptions mn rest
             (other, lg @ [Warn (msg_cannot_reconfigure p mn)]))"

text \<open>The settings block of \<open>Registry.prototype.configureModel\<close>.\<close>

definition configureSettings ::
  "string \<Rightarrow> jsval \<Rightarrow> (string \<times> jsval) list \<times> log list \<Rightarrow> (string \<times> jsval) list \<times> log list" where
  "configureSettings mn opts st =
     (if is_object opts then copyOptions mn (entries opts) st
      else if not_nullish opts
      then (fst st, snd st @
              [Warn (''The options property of `'' @ mn @ ''` configuration must be an object'')])
      else st)"

text \<open>\<open>util._extend(origin, add)\<close>: copies the own keys of \<open>add\<close>, last key first.\<close>

definition util_extend :: "(string \<times> jsval) list \<Rightarrow> jsval \<Rightarrow> (string \<times> jsval) list" where
  "util_extend origin add =
     (if is_object add
      then foldl (\<lambda>acc kv. obj_set acc (fst kv) (snd kv)) origin (rev (entries add))
      else origin)"

text \<open>The relations block.  Every relation already in the settings is a plain object.\<close>

definition mergeRelation :: "(string \<times> jsval) list \<Rightarrow> string \<times> jsval \<Rightarrow> (string \<times> jsval) list" where
  "mergeRelation relations kv =
     obj_set relations (fst kv)
       (JObj (util_extend (case get_prop relations (fst kv) of JObj old \<Rightarrow> old | _ \<Rightarrow> [])
                     (snd kv)))"

definition configureRelations ::
  "string \<Rightarrow> jsval \<Rightarrow> (string \<times> jsval) list option \<times> log list
     \<Rightarrow> (string \<times> jsval) list option \<times> log list" where
  "configureRelations mn rels st =
     (if is_object rels
      then (Some (foldl mergeRelation (case fst st of None \<Rightarrow> [] | Some r \<Rightarrow> r) (entries rels)),
            snd st)
      else if not_nullish rels
      then (fst st, snd st @
              [Warn (''The relations property of `'' @ mn @ ''` configuration must be an object'')])
      else st)"

text \<open>\<open>===\<close> on primitive values; two objects are taken to be distinct references.\<close>

fun strict_eq :: "jsval \<Rightarrow> jsval \<Rightarrow> bool" where
  "strict_eq Undefined Undefined = True"
| "strict_eq Null Null = True"
| "strict_eq (JBool a) (JBool b) = (a = b)"
| "strict_eq (JNum a) (JNum b) = (a = b)"
| "strict_eq (JStr a) (JStr b) = (a = b)"
| "strict_eq a b = False"

text \<open>\<open>v.k\<close> for a named key: reading a property of \<open>null\<close> or \<open>undefined\<close> throws.\<close>

fun member_of :: "jsval \<Rightarrow> string \<Rightarrow> error + jsval" where
  "member_of Undefined k = Inl (TypeError (''Cannot read property '' @ k @ '' of undefined''))"
| "member_of Null k = Inl (TypeError (''Cannot read property '' @ k @ '' of null''))"
| "member_of (JObj kvs) k = Inr (get_prop kvs k)"
| "member_of v k = Inr Undefined"

definition field_eq :: "jsval \<Rightarrow> jsval \<Rightarrow> string \<Rightarrow> error + bool" where
  "field_eq a acl k =
     (case member_of a k of
        Inl e \<Rightarrow> Inl e
      | Inr x \<Rightarrow> (case member_of acl k of Inl e \<Rightarrow> Inl e | Inr y \<Rightarrow> Inr (strict_eq x y)))"

fun all_fields_eq :: "jsval \<Rightarrow> jsval \<Rightarrow> string list \<Rightarrow> error + bool" where
  "all_fields_eq a acl [] = Inr True"
| "all_fields_eq a acl (k # ks) =
     (case field_eq a acl k of
        Inl e \<Rightarrow> Inl e
      | Inr False \<Rightarrow> Inr False
      | Inr True \<Rightarrow> all_fields_eq a acl ks)"

fun addACL :: "jsval list \<Rightarrow> jsval \<Rightarrow> error + jsval list" where
  "addACL [] acl = Inr [acl]"
| "addACL (a # as) acl =
     (case all_fields_eq a acl [''property'', ''accessType'', ''principalType'', ''principalId''] of
        Inl e \<Rightarrow> Inl e
      | Inr True \<Rightarrow> Inr (acl # as)
      | Inr False \<Rightarrow> (case addACL as acl of Inl e \<Rightarrow> Inl e | Inr as' \<Rightarrow> Inr (a # as')))"

text \<open>\<open>config.acls.forEach(addACL)\<close>: the list as merged so far, and the error that
  stopped the loop, if any.\<close>

fun addACLs :: "jsval list \<Rightarrow> jsval list \<Rightarrow> jsval list \<times> error option" where
  "addACLs acls [] = (acls, None)"
| "addACLs acls (acl # rest) =
     (case addACL acls acl of Inl e \<Rightarrow> (acls, Some e) | Inr acls' \<Rightarrow> addACLs acls' rest)"

definition configureAcls ::
  "string \<Rightarrow> jsval \<Rightarrow> jsval list option \<times> log list \<Rightarrow> (jsval list option \<times> log list) \<times> error option" where
  "configureAcls mn acls st =
     (case acls of
        JArr xs \<Rightarrow>
          (let r = addACLs (case fst st of None \<Rightarrow> [] | Some a \<Rightarrow> a) xs
           in ((Some (fst r), snd st), snd r))
      | _ \<Rightarrow>
          if not_nullish acls
          then ((fst st, snd st @
                  [Warn (''The acls property of `'' @ mn @ ''` configuration must be an array of objects'')]),
                None)
          else (st, None))"

text \<open>The data source block: attach, or say why not.\<close>

definition attachDataSource :: "model_ctor \<Rightarrow> ds_ref \<Rightarrow> log list \<Rightarrow> (model_ctor \<times> log list) \<times> error option" where
  "attachDataSource m ds lg =
     (if truthy_ds ds then
        (case ds of
           DsInstance n \<Rightarrow>
             ((m\<lparr>attachedTo := Some n\<rparr>,
               lg @ [Debug (''Attached model `'' @ modelName m @ ''` to dataSource `'' @ n @ ''`'')]),
              None)
         | DsVal v \<Rightarrow>
             ((m, lg),
              Some (AssertionError (''Cannot configure '' @ modelName m @
                      '': config.dataSource must be an instance of DataSource''))))
      else if ds = DsVal Null \<or> ds = DsVal (JBool False) then
        ((m, lg @ [Debug (''Model `'' @ modelName m @
                     ''` is not attached to any DataSource by configuration.'')]), None)
      else
        ((m, lg @ [Debug (''Model `'' @ modelName m @
                     ''` is not attached to any DataSource, possibly by a mistake.''),
                   Warn (''The configuration of `'' @ modelName m @
                     ''` is missing `dataSource` property.'')]), None))"

text \<open>\<open>Registry.prototype.configureModel(ModelCtor, config)\<close>.  The model is changed in
  place, so the model and the log are returned also when the call throws.\<close>

definition registry_configureModel ::
  "model_ctor \<Rightarrow> model_config \<Rightarrow> log list \<Rightarrow> (model_ctor \<times> log list) \<times> error option" where
  "registry_configureModel m config lg =
     (let s = settings m;
          mn = modelName m;
          r1 = configureRelations mn (cfg_relations config) (set_relations s, lg);
          r2 = configureAcls mn (cfg_acls config) (set_acls s, snd r1);
          s2 = s\<lparr>set_relations := fst r1, set_acls := fst (fst r2)\<rparr>
      in case snd r2 of
           Some e \<Rightarrow> ((m\<lparr>settings := s2\<rparr>, snd (fst r2)), Some e)
         | None \<Rightarrow>
             (let r3 = configureSettings mn (cfg_options config) (set_other s2, snd (fst r2))
              in attachDataSource (m\<lparr>settings := s2\<lparr>set_other := fst r3\<rparr>\<rparr>)
                   (cfg_dataSource config) (snd r3)))"

section \<open>The loader: definitions, registry of definitions, instructions\<close>

text \<open>
  A model definition is the object read from a schema file: its name (a string, when
  present), the keys the loader and \<open>createModel\<close> read, and all remaining keys
  (\<open>relations\<close>, \<open>acls\<close>, \<open>hidden\<close>, \<open>methods\<close>, ...) in order.  A source entry pairs a
  definition with the path of its customization script.  The definition registry is
  the object \<open>registry\<close> of the loader, keyed by model name.
\<close>

record model_definition =
  def_name :: "string option"
  def_properties :: jsval
  def_base :: jsval
  def_options :: jsval
  def_other :: "(string \<times> jsval) list"

record source_entry =
  src_definition :: model_definition
  src_sourceFile :: "string option"

type_synonym def_registry = "(string \<times> source_entry) list"

text \<open>The configuration of one model: a value that is not an object, or an object.\<close>

datatype config_val = CVal jsval | CObj model_config

fun truthy_cfg :: "config_val \<Rightarrow> bool" where
  "truthy_cfg (CVal v) = truthy v"
| "truthy_cfg (CObj c) = True"

record instruction =
  inst_name :: string
  inst_config :: config_val
  inst_definition :: "model_definition option"
  inst_sourceFile :: "string option"
  inst_model :: "string option"

text \<open>\<open>v.base\<close> for a truthy value \<open>v\<close>: only a plain object has such a key.\<close>

fun base_of :: "jsval \<Rightarrow> jsval" where
  "base_of (JObj kvs) = get_prop kvs ''base''"
| "base_of v = Undefined"

definition getBaseModelName :: "model_definition option \<Rightarrow> jsval" where
  "getBaseModelName modelDefinition =
     (case modelDefinition of
        None \<Rightarrow> Undefined
      | Some d \<Rightarrow>
          (if truthy (def_base d) then def_base d
           else if truthy (def_options d) then base_of (def_options d)
           else def_options d))"

text \<open>
  \<open>registry[base]\<close> is read with the base as key.  A base that is a string is looked
  up by that name; any other value is a key under which the registry holds nothing.
\<close>

text \<open>
  One turn of the loop of \<open>addAllBaseModels\<close> for a name not yet visited pushes at most
  one name onto the queue: the base of the definition stored under that name, when the
  registry knows that base.  Nothing is pushed when the name has no definition or the
  base is unknown (a built-in model).
\<close>

definition pushed_base :: "def_registry \<Rightarrow> string \<Rightarrow> string list" where
  "pushed_base registry nm =
     (case map_of registry nm of
        None \<Rightarrow> []
      | Some entry \<Rightarrow>
          (case getBaseModelName (Some (src_definition entry)) of
             JStr base \<Rightarrow> if map_of registry base = None then [] else [base]
           | _ \<Rightarrow> []))"

text \<open>
  The work queue of \<open>addAllBaseModels\<close>.  The object \<open>visited\<close> holds exactly the
  names pushed to \<open>result\<close>, so the test \<open>visited[name]\<close> reads \<open>result\<close>.
\<close>

function addAllBaseModels_loop :: "def_registry \<Rightarrow> string list \<Rightarrow> string list \<Rightarrow> string list" where
  "addAllBaseModels_loop registry [] result = result"
| "addAllBaseModels_loop registry (nm # modelNames) result =
     (if nm \<in> set result then addAllBaseModels_loop registry modelNames result
      else addAllBaseModels_loop registry (modelNames @ pushed_base registry nm) (result @ [nm]))"
  by pat_completeness auto
termination
proof (relation "(\<lambda>(r, q, res). card ((fst ` set r \<union> set q) - set res)) <*mlex*>
                 measure (\<lambda>(r, q, res). length q)", goal_cases)
  case 1
  show ?case by (simp add: wf_mlex)
next
  case (2 registry nm modelNames result)
  then show ?case
    by (auto intro!: mlex_leq card_mono)
next
  case (3 registry nm modelNames result)
  have "set (pushed_base registry nm) \<subseteq> fst ` set registry"
  proof
    fix x
    assume "x \<in> set (pushed_base registry nm)"
    then obtain e' where "map_of registry x = Some e'"
      by (auto simp: pushed_base_def split: option.splits jsval.splits if_splits)
    then have "(x, e') \<in> set registry"
      by (rule map_of_SomeD)
    then show "x \<in> fst ` set registry"
      by force
  qed
  then have "(fst ` set registry \<union> set (modelNames @ pushed_base registry nm)) - set (result @ [nm])
          \<subset> (fst ` set registry \<union> set (nm # modelNames)) - set result"
    using 3 by auto
  then show ?case
    by (auto intro!: mlex_less psubset_card_mono)
qed

definition addAllBaseModels :: "def_registry \<Rightarrow> string list \<Rightarrow> string list" where
  "addAllBaseModels registry modelNames = addAllBaseModels_loop registry modelNames []"

text \<open>
  Modelled from the spec: the package \<open>toposort\<close> is a dependency of the repository and
  its code is not part of it.  The specification asks for a standard topological sort
  of the names that occur in the edges, which fails when the edges contain a cycle and
  whose tie-break is left open (stable insertion order is acceptable).  The model takes
  the nodes in order of first occurrence and repeatedly emits the first remaining node
  that has no predecessor among the remaining nodes.
\<close>

definition uniqueNodes :: "('a \<times> 'a) list \<Rightarrow> 'a list" where
  "uniqueNodes edges =
     fold (\<lambda>x acc. if x \<in> set acc then acc else acc @ [x])
          (concat (map (\<lambda>e. [fst e, snd e]) edges)) []"

definition has_pred :: "('a \<times> 'a) list \<Rightarrow> 'a list \<Rightarrow> 'a \<Rightarrow> bool" where
  "has_pred edges nodes n = (n \<in> set (map snd (filter (\<lambda>e. fst e \<in> set nodes) edges)))"

function toposort_nodes :: "('a \<times> 'a) list \<Rightarrow> 'a list \<Rightarrow> error + 'a list" where
  "toposort_nodes edges nodes =
     (if nodes = [] then Inr []
      else case find (\<lambda>n. \<not> has_pred edges nodes n) nodes of
             None \<Rightarrow> Inl (Error ''Cyclic dependency'')
           | Some n \<Rightarrow>
               (case toposort_nodes edges (removeAll n nodes) of
                  Inl e \<Rightarrow> Inl e
                | Inr rest \<Rightarrow> Inr (n # rest)))"
  by pat_completeness auto
termination
proof (relation "measure (\<lambda>(edges, nodes). length nodes)", goal_cases)
  case 1
  show ?case by simp
next
  case (2 edges nodes n)
  then have "n \<in> set nodes"
    by (auto simp: find_Some_iff)
  then show ?case
    by (simp add: length_removeAll_less)
qed

declare toposort_nodes.simps [simp del]

definition toposort :: "('a \<times> 'a) list \<Rightarrow> error + 'a list" where
  "toposort edges = toposort_nodes edges (uniqueNodes edges)"

text \<open>\<open>instructionsByModelName[n]\<close> for a sorted node \<open>n\<close>: the last instruction stored
  under that name.\<close>

fun instruction_at :: "instruction list \<Rightarrow> jsval \<Rightarrow> instruction option" where
  "instruction_at instructions (JStr n) = map_of (map (\<lambda>i. (inst_name i, i)) (rev instructions)) n"
| "instruction_at instructions v = None"

definition sortByInheritance :: "instruction list \<Rightarrow> error + instruction list" where
  "sortByInheritance instructions =
     (case toposort (map (\<lambda>inst. (getBaseModelName (inst_definition inst), JStr (inst_name inst)))
                         instructions) of
        Inl e \<Rightarrow> Inl e
      | Inr sortedNames \<Rightarrow> Inr (List.map_filter (instruction_at instructions) sortedNames))"

section \<open>The file system and the module loader\<close>

text \<open>
  What a customization script or a mixin file exports: a value, or an object that is
  not a function and whose \<open>prototype\<close> is an instance of the base model class.
\<close>

datatype module_export = ExpVal jsval | ExpModelShaped string

text \<open>
  The loader reads the world through Node's \<open>fs\<close>, \<open>path\<close>, \<open>module\<close> and \<open>require\<close>.
  They are the environment of the model: \<open>None\<close> stands for a call that throws.
  \<open>require_extensions\<close> lists the keys of \<open>require.extensions\<close>, each bound to a
  function.
\<close>

record fs_env =
  cwd :: string
  existsSync :: "string \<Rightarrow> bool"
  require_resolve :: "string \<Rightarrow> string option"
  path_resolve :: "string \<Rightarrow> string \<Rightarrow> string"
  path_join :: "string \<Rightarrow> string \<Rightarrow> string"
  path_dirname :: "string \<Rightarrow> string"
  path_basename :: "string \<Rightarrow> string \<Rightarrow> string"
  path_extname :: "string \<Rightarrow> string"
  globalPaths :: "string list"
  nodeModulePaths :: "string \<Rightarrow> string list"
  readdirSync :: "string \<Rightarrow> string list option"
  statSync_isFile :: "string \<Rightarrow> bool option"
  require_extensions :: "string list"
  require_json :: "string \<Rightarrow> error + model_definition"
  require_script :: "string \<Rightarrow> error + module_export"

definition FILE_EXTENSION_JSON :: string where
  "FILE_EXTENSION_JSON = ''.json''"

definition tryReadDir :: "fs_env \<Rightarrow> string \<Rightarrow> string list" where
  "tryReadDir env dir = (case readdirSync env dir of None \<Rightarrow> [] | Some files \<Rightarrow> files)"

definition getExcludedExtensions :: "string list" where
  "getExcludedExtensions = [''.json'', ''.node'']"

definition isPreferredExtension :: "fs_env \<Rightarrow> string \<Rightarrow> bool" where
  "isPreferredExtension env filename =
     (let ext = path_extname env filename
      in ext \<in> set (require_extensions env) \<and> ext \<notin> set getExcludedExtensions)"

text \<open>The loop of \<open>fixFileExtension\<close> over the sibling files; \<open>fs.statSync\<close> may throw.\<close>

fun matchingFiles ::
  "fs_env \<Rightarrow> string \<Rightarrow> string \<Rightarrow> bool \<Rightarrow> string list \<Rightarrow> string list \<Rightarrow> error + string list" where
  "matchingFiles env sourceDir basename onlyScripts [] results = Inr results"
| "matchingFiles env sourceDir basename onlyScripts (f # files) results =
     (let otherFile = path_resolve env sourceDir f
      in case statSync_isFile env otherFile of
           None \<Rightarrow> Inl (Error (''ENOENT: no such file or directory, stat '' @ otherFile))
         | Some isFile \<Rightarrow>
             (let otherFileExtension = path_extname env f
              in if isFile \<and> otherFileExtension \<notin> set getExcludedExtensions
                    \<and> path_basename env f otherFileExtension = basename
                    \<and> (\<not> onlyScripts \<or> otherFileExtension \<in> set (require_extensions env))
                 then matchingFiles env sourceDir basename onlyScripts files (results @ [otherFile])
                 else matchingFiles env sourceDir basename onlyScripts files results))"

definition fixFileExtension :: "fs_env \<Rightarrow> string \<Rightarrow> string list \<Rightarrow> bool \<Rightarrow> error + string option" where
  "fixFileExtension env filepath files onlyScriptsExportingFunction =
     (if isPreferredExtension env filepath then Inr (Some filepath)
      else case matchingFiles env (path_dirname env filepath)
                  (path_basename env filepath FILE_EXTENSION_JSON)
                  onlyScriptsExportingFunction files [] of
             Inl e \<Rightarrow> Inl e
           | Inr results \<Rightarrow> Inr (case results of [] \<Rightarrow> None | r # rs \<Rightarrow> Some r))"

subsection \<open>Deriving a model name from a file name\<close>

text \<open>
  Modelled from the spec: \<open>_.camelCase\<close> and \<open>_.capitalize\<close> belong to the package
  \<open>lodash\<close>, whose code is not part of the repository.  The specification says that the
  base name of the file is converted to pascal case.  The model splits the base name
  into words at every character that is not a letter or a digit and before a capital
  that follows a small letter or a digit; \<open>camelCase\<close> lowers the words and raises the
  first letter of every word but the first; \<open>capitalize\<close> raises the first character
  and keeps the rest.
\<close>

definition is_lower :: "char \<Rightarrow> bool" where
  "is_lower c = (97 \<le> (of_char c :: nat) \<and> (of_char c :: nat) \<le> 122)"

definition is_upper :: "char \<Rightarrow> bool" where
  "is_upper c = (65 \<le> (of_char c :: nat) \<and> (of_char c :: nat) \<le> 90)"

definition is_digit :: "char \<Rightarrow> bool" where
  "is_digit c = (48 \<le> (of_char c :: nat) \<and> (of_char c :: nat) \<le> 57)"

definition to_upper :: "char \<Rightarrow> char" where
  "to_upper c = (if is_lower c then char_of ((of_char c :: nat) - 32) else c)"

definition to_lower :: "char \<Rightarrow> char" where
  "to_lower c = (if is_upper c then char_of ((of_char c :: nat) + 32) else c)"

fun split_words :: "string \<Rightarrow> string \<Rightarrow> string list" where
  "split_words cur [] = (if cur = [] then [] else [cur])"
| "split_words cur (c # cs) =
     (if \<not> (is_lower c \<or> is_upper c \<or> is_digit c)
      then (if cur = [] then [] else [cur]) @ split_words [] cs
      else if is_upper c \<and> cur \<noteq> [] \<and> \<not> is_upper (last cur)
      then cur # split_words [c] cs
      else split_words (cur @ [c]) cs)"

definition upperFirst :: "string \<Rightarrow> string" where
  "upperFirst s = (case s of [] \<Rightarrow> [] | c # cs \<Rightarrow> to_upper c # cs)"

definition camelCase :: "string \<Rightarrow> string" where
  "camelCase s =
     (case map (map to_lower) (split_words [] s) of
        [] \<Rightarrow> []
      | w # ws \<Rightarrow> w @ concat (map upperFirst ws))"

definition capitalize :: "string \<Rightarrow> string" where
  "capitalize s = upperFirst s"

subsection \<open>Reading one schema file\<close>

definition loadModelDefinition :: "fs_env \<Rightarrow> string \<Rightarrow> string \<Rightarrow> string list \<Rightarrow> error + source_entry" where
  "loadModelDefinition env rootDir jsonFile allFiles =
     (case require_json env jsonFile of
        Inl e \<Rightarrow> Inl e
      | Inr d \<Rightarrow>
          (let basename = path_basename env jsonFile (path_extname env jsonFile);
               d' = d\<lparr>def_name :=
                        (if def_name d \<noteq> None \<and> def_name d \<noteq> Some []
                         then def_name d
                         else Some (capitalize (camelCase basename)))\<rparr>
           in case fixFileExtension env jsonFile allFiles True of
                Inl e \<Rightarrow> Inl e
              | Inr sf \<Rightarrow> Inr \<lparr>src_definition = d', src_sourceFile = sf\<rparr>))"

subsection \<open>The path resolver\<close>

record resolve_options =
  strict :: bool
  fullResolve :: "bool option"

text \<open>A candidate of the module search: a \<open>String\<close> object carrying the resolved file
  and the unresolved path, or the bare path when \<open>require.resolve\<close> threw.\<close>

datatype candidate = Resolved string string | Bare string

fun candidate_string :: "candidate \<Rightarrow> string" where
  "candidate_string (Resolved filePath absPath) = filePath"
| "candidate_string (Bare absPath) = absPath"

definition searchModulePaths :: "fs_env \<Rightarrow> string \<Rightarrow> string \<Rightarrow> candidate list" where
  "searchModulePaths env rootDir relativePath =
     filter (\<lambda>c. existsSync env (candidate_string c))
       (map (\<lambda>candidateDir.
               (let absPath = path_join env candidateDir relativePath
                in case require_resolve env absPath of
                     Some filePath \<Rightarrow> Resolved filePath absPath
                   | None \<Rightarrow> Bare absPath))
            (globalPaths env @ nodeModulePaths env rootDir))"

text \<open>The tail of \<open>tryResolveAppPath\<close>: the search through the module directories.\<close>

definition resolveModuleRelative :: "fs_env \<Rightarrow> string \<Rightarrow> string \<Rightarrow> resolve_options \<Rightarrow> string option" where
  "resolveModuleRelative env rootDir relativePath resolveOptions =
     (case searchModulePaths env rootDir relativePath of
        [] \<Rightarrow> None
      | Resolved filePath absPath # rest \<Rightarrow>
          if absPath \<noteq> [] \<and> fullResolve resolveOptions = Some False then Some absPath
          else Some filePath
      | Bare absPath # rest \<Rightarrow> if absPath \<noteq> [] then Some absPath else None)"

text \<open>The head of \<open>tryResolveAppPath\<close>: the \<open>if\<close> chain that sets \<open>fullPath\<close> and
  \<open>isModuleRelative\<close>.\<close>

definition rootRelativePath :: "fs_env \<Rightarrow> string \<Rightarrow> string \<Rightarrow> resolve_options \<Rightarrow> string option \<times> bool" where
  "rootRelativePath env rootDir relativePath resolveOptions =
     (let start = take 2 relativePath
      in if take 1 relativePath = ''/'' then (Some relativePath, False)
         else if start = ''./'' \<or> start = ''..''
         then (Some (path_resolve env rootDir relativePath), False)
         else if \<not> strict resolveOptions
         then (Some (path_resolve env rootDir relativePath), True)
         else (None, False))"

definition tryResolveAppPath :: "fs_env \<Rightarrow> string \<Rightarrow> string \<Rightarrow> resolve_options option \<Rightarrow> string option" where
  "tryResolveAppPath env rootDir relativePath resolveOptions0 =
     (let resolveOptions = (case resolveOptions0 of
                              None \<Rightarrow> \<lparr>strict = True, fullResolve = None\<rparr>
                            | Some r \<Rightarrow> r);
          fullPath = fst (rootRelativePath env rootDir relativePath resolveOptions);
          isModuleRelative = snd (rootRelativePath env rootDir relativePath resolveOptions)
      in case fullPath of
           Some p \<Rightarrow>
             if p \<noteq> [] then
               (if existsSync env p then Some p
                else case require_resolve env p of
                       Some r \<Rightarrow> Some r
                     | None \<Rightarrow>
                         if \<not> isModuleRelative then None
                         else resolveModuleRelative env rootDir relativePath resolveOptions)
             else resolveModuleRelative env rootDir relativePath resolveOptions
         | None \<Rightarrow> resolveModuleRelative env rootDir relativePath resolveOptions)"

subsection \<open>Collecting the definitions\<close>

text \<open>\<open>registry[modelName] = entry\<close> for the schema files of one directory, in order.\<close>

fun loadFiles ::
  "fs_env \<Rightarrow> string \<Rightarrow> string \<Rightarrow> string list \<Rightarrow> string list \<Rightarrow> def_registry \<Rightarrow> error + def_registry" where
  "loadFiles env rootDir srcDir files [] registry = Inr registry"
| "loadFiles env rootDir srcDir files (f # fs) registry =
     (case loadModelDefinition env rootDir (path_resolve env srcDir f) files of
        Inl e \<Rightarrow> Inl e
      | Inr entry \<Rightarrow>
          (case def_name (src_definition entry) of
             None \<Rightarrow> loadFiles env rootDir srcDir files fs registry
           | Some mname \<Rightarrow>
               if mname = [] then loadFiles env rootDir srcDir files fs registry
               else loadFiles env rootDir srcDir files fs (obj_set registry mname entry)))"

fun findModelDefinitions_loop :: "fs_env \<Rightarrow> string \<Rightarrow> string list \<Rightarrow> def_registry \<Rightarrow> error + def_registry" where
  "findModelDefinitions_loop env rootDir [] registry = Inr registry"
| "findModelDefinitions_loop env rootDir (src # sources) registry =
     (case tryResolveAppPath env rootDir src (Some \<lparr>strict = False, fullResolve = None\<rparr>) of
        None \<Rightarrow> findModelDefinitions_loop env rootDir sources registry
      | Some srcDir \<Rightarrow>
          if srcDir = [] then findModelDefinitions_loop env rootDir sources registry
          else
            (let files = tryReadDir env srcDir
             in case loadFiles env rootDir srcDir files
                       (filter (\<lambda>f. take 1 f \<noteq> ''_'' \<and> path_extname env f = ''.json'') files)
                       registry of
                  Inl e \<Rightarrow> Inl e
                | Inr registry' \<Rightarrow> findModelDefinitions_loop env rootDir sources registry'))"

definition findModelDefinitions :: "fs_env \<Rightarrow> string \<Rightarrow> string list \<Rightarrow> error + def_registry" where
  "findModelDefinitions env rootDir sources = findModelDefinitions_loop env rootDir sources []"

text \<open>\<open>verifyModelDefinitions\<close>: the loop over the caller's list of definitions.\<close>

fun verifyModelDefinitions_loop :: "fs_env \<Rightarrow> string \<Rightarrow> source_entry list \<Rightarrow> def_registry \<Rightarrow> error + def_registry" where
  "verifyModelDefinitions_loop env rootDir [] registry = Inr registry"
| "verifyModelDefinitions_loop env rootDir (d # ds) registry =
     (case (case src_sourceFile d of
              None \<Rightarrow> Inr None
            | Some sf0 \<Rightarrow>
                if sf0 = [] then Inr (Some sf0)
                else (let fullPath = path_resolve env rootDir sf0
                      in fixFileExtension env fullPath
                           (tryReadDir env (path_dirname env fullPath)) True)) of
        Inl e \<Rightarrow> Inl e
      | Inr sf \<Rightarrow>
          (case def_name (src_definition d) of
             None \<Rightarrow> verifyModelDefinitions_loop env rootDir ds registry
           | Some mname \<Rightarrow>
               if mname = [] then verifyModelDefinitions_loop env rootDir ds registry
               else verifyModelDefinitions_loop env rootDir ds
                      (obj_set registry mname (d\<lparr>src_sourceFile := sf\<rparr>))))"

definition verifyModelDefinitions ::
  "fs_env \<Rightarrow> string \<Rightarrow> source_entry list option \<Rightarrow> error + def_registry option" where
  "verifyModelDefinitions env rootDir modelDefinitions =
     (case modelDefinitions of
        None \<Rightarrow> Inr None
      | Some ds \<Rightarrow>
          if length ds < 1 then Inr None
          else (case verifyModelDefinitions_loop env rootDir ds [] of
                  Inl e \<Rightarrow> Inl e
                | Inr registry \<Rightarrow> Inr (Some registry)))"

section \<open>Assembling the instructions\<close>

record mixin_instruction =
  mixin_name :: string
  mixin_sourceFile :: string

record load_options =
  opt_root :: "string option"
  opt_dataSouce :: ds_ref
  opt_dataSource :: ds_ref
  opt_sources :: "string list option"
  opt_modelDefinitions :: "source_entry list option"
  opt_models :: "(string \<times> config_val) list option"
  opt_mixins :: "mixin_instruction list option"

definition empty_config :: model_config where
  "empty_config = \<lparr>cfg_relations = Undefined, cfg_acls = Undefined, cfg_options = Undefined,
                    cfg_dataSource = DsVal Undefined\<rparr>"

text \<open>The function \<open>createModelInstructions\<close> mapped over the names to build.\<close>

definition createModelInstructions :: "def_registry \<Rightarrow> load_options \<Rightarrow> string \<Rightarrow> instruction" where
  "createModelInstructions registry options nm =
     \<lparr>inst_name = nm,
      inst_config = (case opt_models options of
                       Some modelsConfig \<Rightarrow>
                         (case map_of modelsConfig nm of None \<Rightarrow> CVal Undefined | Some c \<Rightarrow> c)
                     | None \<Rightarrow> CObj (empty_config\<lparr>cfg_dataSource := opt_dataSouce options\<rparr>)),
      inst_definition = (case map_of registry nm of
                           None \<Rightarrow> None
                         | Some entry \<Rightarrow> Some (src_definition entry)),
      inst_sourceFile = (case map_of registry nm of
                           None \<Rightarrow> None
                         | Some entry \<Rightarrow> src_sourceFile entry),
      inst_model = None\<rparr>"

text \<open>The names handed to \<open>addAllBaseModels\<close>, and what it returns for them:
  \<open>Object.keys(modelsConfig || registry)\<close> with all bases the registry knows.\<close>

definition modelNamesToBuild :: "def_registry \<Rightarrow> load_options \<Rightarrow> string list" where
  "modelNamesToBuild registry options =
     addAllBaseModels registry
       (case opt_models options of
          Some modelsConfig \<Rightarrow> map fst modelsConfig
        | None \<Rightarrow> map fst registry)"

text \<open>The body of \<open>buildAllModelInstructions\<close> once the definition registry is known.\<close>

definition instructionsFor :: "def_registry \<Rightarrow> load_options \<Rightarrow> error + instruction list" where
  "instructionsFor registry options =
     sortByInheritance
       (map (createModelInstructions registry options) (modelNamesToBuild registry options))"

text \<open>\<open>verifyModelDefinitions(rootDir, modelDefinitions) || findModelDefinitions(rootDir,
  sources)\<close>.\<close>

definition modelRegistry ::
  "fs_env \<Rightarrow> string \<Rightarrow> string list \<Rightarrow> source_entry list option \<Rightarrow> error + def_registry" where
  "modelRegistry env rootDir sources modelDefinitions =
     (case verifyModelDefinitions env rootDir modelDefinitions of
        Inl e \<Rightarrow> Inl e
      | Inr (Some registry) \<Rightarrow> Inr registry
      | Inr None \<Rightarrow> findModelDefinitions env rootDir sources)"

definition buildAllModelInstructions ::
  "fs_env \<Rightarrow> string \<Rightarrow> string list \<Rightarrow> source_entry list option \<Rightarrow> load_options
     \<Rightarrow> error + instruction list" where
  "buildAllModelInstructions env rootDir sources modelDefinitions options =
     (case modelRegistry env rootDir sources modelDefinitions of
        Inl e \<Rightarrow> Inl e
      | Inr registry \<Rightarrow> instructionsFor registry options)"

definition loadModelInstructions :: "fs_env \<Rightarrow> string \<Rightarrow> load_options \<Rightarrow> error + instruction list" where
  "loadModelInstructions env root options =
     buildAllModelInstructions env root
       (case opt_sources options of None \<Rightarrow> [''./models''] | Some sources \<Rightarrow> sources)
       (opt_modelDefinitions options) options"

section \<open>The registry of models and the application (\<open>line\<close>)\<close>

text \<open>
  \<open>rs_models\<close> is \<open>modelBuilder.models\<close>; a model handle is the name under which the
  model is stored there.  \<open>rs_mixins\<close> is \<open>modelBuilder.mixins\<close> with the mixins defined
  so far, \<open>None\<close> when the model builder has no mixin support.
\<close>

record registry_state =
  rs_models :: "(string \<times> model_ctor) list"
  rs_mixins :: "(string \<times> module_export) list option"

record line_state =
  is_line :: bool
  line_registry :: registry_state
  line_dataSources :: "(string \<times> string) list"
  line_models :: "string list"
  line_log :: "log list"

definition findModel :: "registry_state \<Rightarrow> string \<Rightarrow> model_ctor option" where
  "findModel r modelOrName = map_of (rs_models r) modelOrName"

definition getModel :: "registry_state \<Rightarrow> string \<Rightarrow> error + model_ctor" where
  "getModel r modelOrName =
     (case findModel r modelOrName of
        Some model \<Rightarrow> Inr model
      | None \<Rightarrow> Inl (Error (''Model not found: '' @ modelOrName)))"

text \<open>The keys of a definition other than \<open>name\<close>, \<open>properties\<close> and \<open>options\<close>.\<close>

definition config_keys :: "model_definition \<Rightarrow> (string \<times> jsval) list" where
  "config_keys d = (if def_base d = Undefined then [] else [(''base'', def_base d)]) @ def_other d"

definition buildModelOptionsFromConfig :: "model_definition \<Rightarrow> (string \<times> jsval) list" where
  "buildModelOptionsFromConfig d =
     foldl (\<lambda>options kv. if get_prop options (fst kv) \<noteq> Undefined then options
                          else obj_set options (fst kv) (snd kv))
           (util_extend [] (def_options d)) (config_keys d)"

text \<open>
  Modelled from the spec: \<open>BaseModel.extend(name, properties, options)\<close> belongs to the
  data-source library, whose code is not part of the repository.  The specification
  gives \<open>createModel(definition) -> ModelHandle\<close>: the new model is stored under its name
  and carries the options as its settings.
\<close>

definition extendModel :: "string \<Rightarrow> (string \<times> jsval) list \<Rightarrow> model_ctor" where
  "extendModel nm options =
     \<lparr>modelName = nm,
      settings = \<lparr>set_relations = (case get_prop options ''relations'' of
                                      JObj r \<Rightarrow> Some r | _ \<Rightarrow> None),
                  set_acls = (case get_prop options ''acls'' of JArr a \<Rightarrow> Some a | _ \<Rightarrow> None),
                  set_other = filter (\<lambda>kv. fst kv \<noteq> ''relations'' \<and> fst kv \<noteq> ''acls'') options\<rparr>,
      attachedTo = None,
      isModel = True\<rparr>"

text \<open>\<open>Registry.prototype.createModel(config)\<close>: the registry with the new model, and its
  handle.\<close>

definition createModel :: "registry_state \<Rightarrow> model_definition \<Rightarrow> error + registry_state \<times> string" where
  "createModel r d =
     (case def_name d of
        None \<Rightarrow> Inl (AssertionError ''The model-config property `name` must be a string'')
      | Some nm \<Rightarrow>
          (let options = buildModelOptionsFromConfig d;
               BaseModel = (if truthy (get_prop options ''base'') then get_prop options ''base''
                            else get_prop options ''super'');
               created = (r\<lparr>rs_models := obj_set (rs_models r) nm (extendModel nm options)\<rparr>, nm)
           in case BaseModel of
                JStr baseName \<Rightarrow>
                  if findModel r baseName = None then
                    Inl (Error (''Model not found: model `'' @ nm @
                                ''` is extending an unknown model `'' @ baseName @ ''`.''))
                  else Inr created
              | JFun f \<Rightarrow> Inr created
              | _ \<Rightarrow>
                  if truthy BaseModel then Inl (TypeError ''BaseModel.extend is not a function'')
                  else (case getModel r ''PersistedModel'' of
                          Inl e \<Rightarrow> Inl e
                        | Inr pm \<Rightarrow> Inr created)))"

section \<open>Materializing the instructions\<close>

record instructions =
  ins_models :: "instruction list"
  ins_mixins :: "mixin_instruction list option"

text \<open>The loop of \<open>defineMixins\<close>.\<close>

fun defineMixins_loop ::
  "fs_env \<Rightarrow> mixin_instruction list \<Rightarrow> (string \<times> module_export) list \<times> log list
     \<Rightarrow> error + (string \<times> module_export) list \<times> log list" where
  "defineMixins_loop env [] st = Inr st"
| "defineMixins_loop env (obj # rest) (defined, lg) =
     (case require_script env (mixin_sourceFile obj) of
        Inl e \<Rightarrow> Inl e
      | Inr mixin \<Rightarrow>
          (case mixin of
             ExpVal (JFun f) \<Rightarrow>
               defineMixins_loop env rest
                 (obj_set defined (mixin_name obj) mixin,
                  lg @ [Debug (''Defining mixin '' @ mixin_name obj)])
           | ExpModelShaped c \<Rightarrow>
               defineMixins_loop env rest
                 (obj_set defined (mixin_name obj) mixin,
                  lg @ [Debug (''Defining mixin '' @ mixin_name obj)])
           | ExpVal Undefined \<Rightarrow> Inl (TypeError ''Cannot read property prototype of undefined'')
           | ExpVal Null \<Rightarrow> Inl (TypeError ''Cannot read property prototype of null'')
           | ExpVal v \<Rightarrow>
               defineMixins_loop env rest
                 (defined,
                  lg @ [Debug (''Skipping mixin file '' @ mixin_sourceFile obj @
                          '' - `module.exports` is not a function or Loopback model'')])))"

definition defineMixins :: "fs_env \<Rightarrow> line_state \<Rightarrow> instructions \<Rightarrow> error + line_state" where
  "defineMixins env line ins =
     (let mixins = (case ins_mixins ins of None \<Rightarrow> [] | Some ms \<Rightarrow> ms)
      in case rs_mixins (line_registry line) of
           None \<Rightarrow> Inr line
         | Some defined \<Rightarrow>
             if mixins = [] then Inr line
             else (case defineMixins_loop env mixins (defined, line_log line) of
                     Inl e \<Rightarrow> Inl e
                   | Inr st \<Rightarrow>
                       Inr (line\<lparr>line_registry := (line_registry line)\<lparr>rs_mixins := Some (fst st)\<rparr>,
                                 line_log := snd st\<rparr>)))"

text \<open>One turn of the loop of \<open>defineModels\<close>: the model for one instruction.\<close>

definition defineModel ::
  "fs_env \<Rightarrow> instruction \<Rightarrow> registry_state \<times> log list
     \<Rightarrow> error + (registry_state \<times> log list) \<times> instruction" where
  "defineModel env data st =
     (case inst_definition data of
        None \<Rightarrow>
          (case getModel (fst st) (inst_name data) of
             Inl e \<Rightarrow> Inl e
           | Inr model \<Rightarrow>
               Inr ((fst st, snd st @ [Debug (''Configuring existing model '' @ inst_name data)]),
                    data\<lparr>inst_model := Some (modelName model)\<rparr>))
      | Some d \<Rightarrow>
          (case createModel (fst st) d of
             Inl e \<Rightarrow> Inl e
           | Inr (r', model) \<Rightarrow>
               (let lg1 = snd st @ [Debug (''Creating new model '' @ inst_name data)]
                in case inst_sourceFile data of
                     None \<Rightarrow> Inr ((r', lg1), data\<lparr>inst_model := Some model\<rparr>)
                   | Some sf \<Rightarrow>
                       if sf = [] then Inr ((r', lg1), data\<lparr>inst_model := Some model\<rparr>)
                       else
                         (case require_script env sf of
                            Inl e \<Rightarrow> Inl e
                          | Inr (ExpVal (JFun code)) \<Rightarrow>
                              Inr ((r', lg1 @ [Debug (''Loading customization script '' @ sf),
                                               Debug (''Customizing model '' @ inst_name data),
                                               Called code model]),
                                   data\<lparr>inst_model := Some model\<rparr>)
                          | Inr other \<Rightarrow>
                              Inr ((r', lg1 @ [Debug (''Loading customization script '' @ sf),
                                               Debug (''Skipping model file '' @ sf @
                                                 '' - `module.exports` is not a function'')]),
                                   data\<lparr>inst_model := Some model\<rparr>)))))"

fun defineModels_loop ::
  "fs_env \<Rightarrow> instruction list \<Rightarrow> registry_state \<times> log list
     \<Rightarrow> error + (registry_state \<times> log list) \<times> instruction list" where
  "defineModels_loop env [] st = Inr (st, [])"
| "defineModels_loop env (data # rest) st =
     (case defineModel env data st of
        Inl e \<Rightarrow> Inl e
      | Inr (st', data') \<Rightarrow>
          (case defineModels_loop env rest st' of
             Inl e \<Rightarrow> Inl e
           | Inr (st'', rest') \<Rightarrow> Inr (st'', data' # rest')))"

definition defineModels :: "fs_env \<Rightarrow> line_state \<Rightarrow> instructions \<Rightarrow> error + line_state \<times> instructions" where
  "defineModels env line ins =
     (case defineModels_loop env (ins_models ins) (line_registry line, line_log line) of
        Inl e \<Rightarrow> Inl e
      | Inr (st, models) \<Rightarrow>
          Inr (line\<lparr>line_registry := fst st, line_log := snd st\<rparr>, ins\<lparr>ins_models := models\<rparr>))"

section \<open>Attaching a model to the application\<close>

text \<open>The text of a data source reference inside an error message.\<close>

fun ds_text :: "ds_ref \<Rightarrow> string" where
  "ds_text (DsVal (JStr n)) = n"
| "ds_text (DsVal (JBool b)) = (if b then ''true'' else ''false'')"
| "ds_text r = ''[object Object]''"

text \<open>\<open>configureModel(ModelCtor, config, line)\<close> of the application: resolve the data
  source by name, then hand over to the registry.\<close>

definition line_configureModel :: "line_state \<Rightarrow> model_ctor \<Rightarrow> model_config \<Rightarrow> error + line_state" where
  "line_configureModel line ModelCtor cfg =
     (if \<not> isModel ModelCtor
      then Inl (AssertionError (modelName ModelCtor @ '' must be a descendant of loopline.Model''))
      else
        (let dataSource =
               (if truthy_ds (cfg_dataSource cfg) then
                  (case cfg_dataSource cfg of
                     DsVal (JStr n) \<Rightarrow>
                       (case map_of (line_dataSources line) n of
                          None \<Rightarrow> DsVal Undefined
                        | Some ds \<Rightarrow> DsInstance ds)
                   | other \<Rightarrow> other)
                else cfg_dataSource cfg)
         in if truthy_ds (cfg_dataSource cfg) \<and> (case dataSource of DsInstance ds \<Rightarrow> False | _ \<Rightarrow> True)
            then Inl (AssertionError (modelName ModelCtor @
                        '' is referencing a dataSource that does not exist: '' @
                        [CHR 0x22] @ ds_text (cfg_dataSource cfg) @ [CHR 0x22]))
            else
              (case registry_configureModel ModelCtor (cfg\<lparr>cfg_dataSource := dataSource\<rparr>)
                      (line_log line) of
                 (st, Some e) \<Rightarrow> Inl e
               | ((model', lg'), None) \<Rightarrow>
                   Inr (line\<lparr>line_registry :=
                              (line_registry line)
                                \<lparr>rs_models := obj_set (rs_models (line_registry line))
                                                (modelName ModelCtor) model'\<rparr>,
                             line_log := lg'\<rparr>))))"

text \<open>
  \<open>line.model(Model, config)\<close> called with a model handle and a second argument, as
  \<open>setupModels\<close> calls it: \<open>config || {}\<close>, configuration, then the model is pushed to
  \<open>line.models()\<close>.  (The alias keys under which the model is also stored on
  \<open>line.models\<close> are not part of the state.)
\<close>

definition line_model :: "line_state \<Rightarrow> string option \<Rightarrow> config_val \<Rightarrow> error + line_state" where
  "line_model line Model cfg =
     (case (case Model of None \<Rightarrow> None | Some h \<Rightarrow> findModel (line_registry line) h) of
        None \<Rightarrow> Inl (TypeError ''Cannot read property prototype of undefined'')
      | Some ModelCtor \<Rightarrow>
          (case line_configureModel line ModelCtor
                  (case cfg of CObj c \<Rightarrow> c | CVal v \<Rightarrow> empty_config) of
             Inl e \<Rightarrow> Inl e
           | Inr line' \<Rightarrow> Inr (line'\<lparr>line_models := line_models line' @ [modelName ModelCtor]\<rparr>)))"

text \<open>The last loop of \<open>setupModels\<close>: \<open>if (!data.config) return;\<close> and \<open>line.model\<close>.\<close>

fun attachModels :: "line_state \<Rightarrow> instruction list \<Rightarrow> error + line_state" where
  "attachModels line [] = Inr line"
| "attachModels line (data # rest) =
     (if \<not> truthy_cfg (inst_config data) then attachModels line rest
      else case line_model line (inst_model data) (inst_config data) of
             Inl e \<Rightarrow> Inl e
           | Inr line' \<Rightarrow> attachModels line' rest)"

definition setupModels :: "fs_env \<Rightarrow> line_state \<Rightarrow> instructions \<Rightarrow> error + line_state" where
  "setupModels env line ins =
     (case defineMixins env line ins of
        Inl e \<Rightarrow> Inl e
      | Inr line1 \<Rightarrow>
          (case defineModels env line1 ins of
             Inl e \<Rightarrow> Inl e
           | Inr (line2, ins2) \<Rightarrow> attachModels line2 (ins_models ins2)))"

section \<open>The load entry point\<close>

text \<open>
  The second argument of \<open>load(line, root, options)\<close>: a string, an options object, or
  a falsy value.  The options object the function ends up writing to is the caller's
  third argument, the caller's second argument, or a fresh object.
\<close>

datatype root_arg = RootString string | RootObject load_options | RootFalsy

datatype options_owner = CallerOptions | CallerRoot | FreshObject

definition empty_options :: load_options where
  "empty_options = \<lparr>opt_root = None, opt_dataSouce = DsVal Undefined, opt_dataSource = DsVal Undefined,
                     opt_sources = None, opt_modelDefinitions = None, opt_models = None,
                     opt_mixins = None\<rparr>"

text \<open>The statements of the entry point that settle the options object.\<close>

definition settleOptions :: "fs_env \<Rightarrow> root_arg \<Rightarrow> load_options option \<Rightarrow> options_owner \<times> load_options" where
  "settleOptions env root options =
     (let chosen =
            (case root of
               RootString r \<Rightarrow>
                 (case options of
                    Some opts \<Rightarrow> (CallerOptions, opts\<lparr>opt_root := Some r\<rparr>)
                  | None \<Rightarrow> (FreshObject, empty_options\<lparr>opt_root := Some r\<rparr>))
             | RootObject ro \<Rightarrow>
                 (case options of
                    Some opts \<Rightarrow> (CallerOptions, opts)
                  | None \<Rightarrow> (CallerRoot, ro))
             | RootFalsy \<Rightarrow>
                 (case options of
                    Some opts \<Rightarrow> (CallerOptions, opts)
                  | None \<Rightarrow> (FreshObject, empty_options)));
          o1 = snd chosen;
          o2 = o1\<lparr>opt_root := (if opt_root o1 \<noteq> None \<and> opt_root o1 \<noteq> Some []
                                then opt_root o1 else Some (cwd env))\<rparr>;
          o3 = o2\<lparr>opt_dataSouce := (if truthy_ds (opt_dataSouce o2) then opt_dataSouce o2
                                    else DsVal (JStr ''default''))\<rparr>
      in (fst chosen, o3))"

text \<open>
  \<open>module.exports = function (line, root, options)\<close>.  The result is the options object
  as the call leaves it (nothing when the first assertion fails) and the outcome of
  \<open>setupModels\<close>.
\<close>

definition load ::
  "fs_env \<Rightarrow> line_state \<Rightarrow> root_arg \<Rightarrow> load_options option
     \<Rightarrow> (options_owner \<times> load_options) option \<times> (error + line_state)" where
  "load env line root options =
     (if \<not> is_line line then (None, Inl (AssertionError ''`line` is invalid''))
      else
        (let settled = settleOptions env root options;
             opts = snd settled
         in (Some settled,
             case loadModelInstructions env (case opt_root opts of None \<Rightarrow> [] | Some r \<Rightarrow> r) opts of
               Inl e \<Rightarrow> Inl e
             | Inr models \<Rightarrow> setupModels env line \<lparr>ins_models = models, ins_mixins = None\<rparr>)))"

section \<open>A sample project\<close>

text \<open>
  A project used to run the model on concrete input: POSIX paths, the directory
  \<open>/app/models\<close> with five schema files and one customization script, and an application
  with the built-in models and two data sources.
\<close>

definition last_segment :: "string \<Rightarrow> string" where
  "last_segment p = rev (takeWhile (\<lambda>c. c \<noteq> CHR ''/'') (rev p))"

definition posix_extname :: "string \<Rightarrow> string" where
  "posix_extname p =
     (let b = last_segment p; r = takeWhile (\<lambda>c. c \<noteq> CHR ''.'') (rev b)
      in if CHR ''.'' \<notin> set b \<or> Suc (length r) = length b then [] else CHR ''.'' # rev r)"

definition posix_basename :: "string \<Rightarrow> string \<Rightarrow> string" where
  "posix_basename p ext =
     (let b = last_segment p
      in if ext \<noteq> [] \<and> length ext < length b \<and> drop (length b - length ext) b = ext
         then take (length b - length ext) b else b)"

definition posix_dirname :: "string \<Rightarrow> string" where
  "posix_dirname p = rev (drop 1 (dropWhile (\<lambda>c. c \<noteq> CHR ''/'') (rev p)))"

definition posix_resolve :: "string \<Rightarrow> string \<Rightarrow> string" where
  "posix_resolve a b =
     (if take 1 b = ''/'' then b
      else if take 2 b = ''./'' then a @ ''/'' @ drop 2 b
      else a @ ''/'' @ b)"

definition sample_files :: "string list" where
  "sample_files = [''manager.json'', ''customer.json'', ''customer.js'', ''employee.json'',
                   ''foo.json'', ''customer-receipt.json'', ''_draft.json'']"

definition plain_definition :: model_definition where
  "plain_definition = \<lparr>def_name = None, def_properties = Undefined, def_base = Undefined,
                        def_options = Undefined, def_other = []\<rparr>"

definition sample_json :: "string \<Rightarrow> error + model_definition" where
  "sample_json p =
     (if p = ''/app/models/customer.json''
      then Inr (plain_definition\<lparr>def_name := Some ''Customer'',
                                  def_properties := JObj [(''name'', JStr ''string'')]\<rparr>)
      else if p = ''/app/models/manager.json''
      then Inr (plain_definition\<lparr>def_name := Some ''Manager'', def_base := JStr ''Employee''\<rparr>)
      else if p = ''/app/models/employee.json''
      then Inr (plain_definition\<lparr>def_name := Some ''Employee''\<rparr>)
      else if p = ''/app/models/foo.json'' then Inr plain_definition
      else if p = ''/app/models/customer-receipt.json'' then Inr plain_definition
      else Inl (Error (''Cannot find module '' @ p)))"

definition sample_env :: fs_env where
  "sample_env =
     \<lparr>cwd = ''/app'',
      existsSync = (\<lambda>p. p = ''/app'' \<or> p = ''/app/models''
                         \<or> p \<in> set (map (\<lambda>f. ''/app/models/'' @ f) sample_files)),
      require_resolve = (\<lambda>p. if p \<in> set (map (\<lambda>f. ''/app/models/'' @ f) sample_files)
                              then Some p else None),
      path_resolve = posix_resolve,
      path_join = (\<lambda>a b. a @ ''/'' @ b),
      path_dirname = posix_dirname,
      path_basename = posix_basename,
      path_extname = posix_extname,
      globalPaths = [''/usr/lib/node_modules''],
      nodeModulePaths = (\<lambda>d. [d @ ''/node_modules'', ''/node_modules'']),
      readdirSync = (\<lambda>d. if d = ''/app/models'' then Some sample_files else None),
      statSync_isFile = (\<lambda>p. if p \<in> set (map (\<lambda>f. ''/app/models/'' @ f) sample_files)
                              then Some True else None),
      require_extensions = [''.js'', ''.json'', ''.node''],
      require_json = sample_json,
      require_script = (\<lambda>p. if p = ''/app/models/customer.js''
                             then Inr (ExpVal (JFun ''customer.js''))
                             else if p = ''/app/mixins/time-stamp.js''
                             then Inr (ExpVal (JFun ''time-stamp.js''))
                             else Inl (Error (''Cannot find module '' @ p)))\<rparr>"

definition builtin_model :: "string \<Rightarrow> model_ctor" where
  "builtin_model nm =
     \<lparr>modelName = nm,
      settings = \<lparr>set_relations = None, set_acls = None, set_other = []\<rparr>,
      attachedTo = None,
      isModel = (nm \<noteq> ''Model'')\<rparr>"

definition sample_line :: line_state where
  "sample_line =
     \<lparr>is_line = True,
      line_registry = \<lparr>rs_models = [(''Model'', builtin_model ''Model''),
                                    (''PersistedModel'', builtin_model ''PersistedModel'')],
                       rs_mixins = Some []\<rparr>,
      line_dataSources = [(''default'', ''memory-1''), (''db'', ''memory-2'')],
      line_models = [],
      line_log = []\<rparr>"

text \<open>The paths that \<open>tryResolveAppPath\<close> may probe for a path expression: the expression
  itself, its resolution against the root, and its place in every module directory.\<close>

definition resolve_candidates :: "fs_env \<Rightarrow> string \<Rightarrow> string \<Rightarrow> string list" where
  "resolve_candidates env rootDir relativePath =
     relativePath # path_resolve env rootDir relativePath #
     map (\<lambda>candidateDir. path_join env candidateDir relativePath)
         (globalPaths env @ nodeModulePaths env rootDir)"


section \<open>Order and cycles of base references\<close>










section \<open>Settings merge in \<open>configureModel\<close>\<close>






section \<open>The load entry point and its options\<close>




lemma createModelInstructions_ignores_dataSource:
  "createModelInstructions registry (opts\<lparr>opt_dataSource := x\<rparr>) =
   createModelInstructions registry opts"
  by (rule ext) (simp add: createModelInstructions_def split: option.splits)

lemma instructionsFor_ignores_dataSource:
  "instructionsFor registry (opts\<lparr>opt_dataSource := x\<rparr>) = instructionsFor registry opts"
  by (simp add: instructionsFor_def modelNamesToBuild_def createModelInstructions_ignores_dataSource)

lemma loadModelInstructions_ignores_dataSource:
  "loadModelInstructions env root (opts\<lparr>opt_dataSource := x\<rparr>) =
   loadModelInstructions env root opts"
  by (simp add: loadModelInstructions_def buildAllModelInstructions_def
        instructionsFor_ignores_dataSource split: sum.splits option.splits)

lemma settleOptions_dataSource:
  "snd (settleOptions env root (Some (opts\<lparr>opt_dataSource := x\<rparr>))) =
   (snd (settleOptions env root (Some opts)))\<lparr>opt_dataSource := x\<rparr>"
  by (cases root) (simp_all add: settleOptions_def Let_def)

lemma load_ignores_dataSource:
  "snd (load env line root (Some (opts\<lparr>opt_dataSource := x\<rparr>))) =
   snd (load env line root (Some opts))"
  by (simp add: load_def Let_def settleOptions_dataSource loadModelInstructions_ignores_dataSource
           split: sum.splits option.splits)

text \<open>
  Claim C4 at the input \<open>{dataSource: 'db'}\<close>: the option spelled \<open>dataSource\<close> is never
  read.  Every discovered model gets the configuration \<open>{dataSource: 'default'}\<close> and is
  attached to the data source named \<open>default\<close> (\<open>memory-1\<close>), not to \<open>db\<close> (\<open>memory-2\<close>).
\<close>

theorem load_dataSource_spelling:
  "map_sum id (map (\<lambda>i. (inst_name i, inst_config i)))
     (loadModelInstructions sample_env ''/app''
        (snd (settleOptions sample_env (RootString ''/app'')
                (Some (empty_options\<lparr>opt_dataSource := DsVal (JStr ''db'')\<rparr>))))) =
   Inr (map (\<lambda>n. (n, CObj (empty_config\<lparr>cfg_dataSource := DsVal (JStr ''default'')\<rparr>)))
          [''Employee'', ''Manager'', ''Customer'', ''Foo'', ''CustomerReceipt''])
   \<and> (case snd (load sample_env sample_line (RootString ''/app'')
               (Some (empty_options\<lparr>opt_dataSource := DsVal (JStr ''db'')\<rparr>))) of
        Inl e \<Rightarrow> False
      | Inr l \<Rightarrow> map (\<lambda>n. map_option attachedTo (findModel (line_registry l) n))
                   [''Customer'', ''Foo''] = [Some (Some ''memory-1''), Some (Some ''memory-1'')])"
  by code_simp

section \<open>Mixins\<close>

text \<open>
  Claim C7 at the input \<open>{mixins: [{name: 'TimeStamp', sourceFile: ...}]}\<close>, where the file
  exports a function: the entry point hands \<open>setupModels\<close> an instruction set without
  \<open>mixins\<close>, so the load ends with no mixin registered, although \<open>defineMixins\<close> would
  register it when given the same entry.
\<close>

theorem load_drops_mixins:
  "(case snd (load sample_env sample_line (RootString ''/app'')
               (Some (empty_options\<lparr>opt_mixins :=
                  Some [\<lparr>mixin_name = ''TimeStamp'',
                         mixin_sourceFile = ''/app/mixins/time-stamp.js''\<rparr>]\<rparr>))) of
      Inl e \<Rightarrow> False
    | Inr l \<Rightarrow> rs_mixins (line_registry l) = Some [])
   \<and> defineMixins sample_env sample_line
        \<lparr>ins_models = [],
         ins_mixins = Some [\<lparr>mixin_name = ''TimeStamp'',
                              mixin_sourceFile = ''/app/mixins/time-stamp.js''\<rparr>]\<rparr>
       = Inr (sample_line\<lparr>line_registry := (line_registry sample_line)
                 \<lparr>rs_mixins := Some [(''TimeStamp'', ExpVal (JFun ''time-stamp.js''))]\<rparr>,
               line_log := [Debug ''Defining mixin TimeStamp'']\<rparr>)"
  by code_simp

section \<open>Defining and attaching the models\<close>

text \<open>
  Claim C3 at an instruction without definition whose model does not exist: the lookup
  \<open>registry.getModel\<close> itself throws, so the error that reaches the caller reads
  \<open>Model not found: Ghost\<close>; the message \<open>Cannot configure unknown model Ghost\<close> of
  \<open>defineModels\<close> is never produced.
\<close>

theorem defineModel_unknown_model:
  "defineModel sample_env
     \<lparr>inst_name = ''Ghost'', inst_config = CObj empty_config, inst_definition = None,
      inst_sourceFile = None, inst_model = None\<rparr>
     (line_registry sample_line, []) = Inl (Error ''Model not found: Ghost'')
   \<and> snd (load sample_env sample_line (RootString ''/app'')
            (Some (empty_options\<lparr>opt_models := Some [(''Ghost'', CObj empty_config)]\<rparr>)))
       = Inl (Error ''Model not found: Ghost'')
   \<and> Error ''Model not found: Ghost'' \<noteq> Error ''Cannot configure unknown model Ghost''"
  by code_simp







section \<open>The path resolver and the scanner\<close>

lemma searchModulePaths_empty:
  assumes "\<forall>p \<in> set (resolve_candidates env rootDir relativePath).
             \<not> existsSync env p \<and> require_resolve env p = None"
  shows "searchModulePaths env rootDir relativePath = []"
  using assms
  by (auto simp: searchModulePaths_def resolve_candidates_def filter_empty_conv Let_def)

lemma findModelDefinitions_loop_append:
  "findModelDefinitions_loop env rootDir (xs @ ys) registry =
     (case findModelDefinitions_loop env rootDir xs registry of
        Inl e \<Rightarrow> Inl e
      | Inr registry' \<Rightarrow> findModelDefinitions_loop env rootDir ys registry')"
  by (induction xs arbitrary: registry) (auto simp: Let_def split: option.splits sum.splits)

text \<open>
  Claim C9.  The path resolver has no failing path: every call that may throw
  (\<open>require.resolve\<close>) is caught, so its result is a path or \<open>undefined\<close>.  When none of
  the paths it may probe exists or resolves as a module, the result is \<open>undefined\<close>, for
  every root directory, path expression and resolve options; and the scanner then
  skips that source directory: the definitions found are those of the other sources.
\<close>

theorem tryResolveAppPath_unresolved:
  assumes "\<forall>p \<in> set (resolve_candidates env rootDir relativePath).
             \<not> existsSync env p \<and> require_resolve env p = None"
  shows "tryResolveAppPath env rootDir relativePath resolveOptions = None
       \<and> findModelDefinitions env rootDir (before @ relativePath # after) =
           findModelDefinitions env rootDir (before @ after)"
proof -
  have rm: "rp = relativePath \<Longrightarrow> resolveModuleRelative env rootDir rp ro = None" for ro rp
    by (simp add: resolveModuleRelative_def searchModulePaths_empty [OF assms])
  have e1: "\<not> existsSync env relativePath" "require_resolve env relativePath = None"
    and e2: "\<not> existsSync env (path_resolve env rootDir relativePath)"
            "require_resolve env (path_resolve env rootDir relativePath) = None"
    using assms by (simp_all add: resolve_candidates_def)
  have fp: "fst (rootRelativePath env rootDir relativePath ro) = None
          \<or> fst (rootRelativePath env rootDir relativePath ro) = Some relativePath
          \<or> fst (rootRelativePath env rootDir relativePath ro) =
               Some (path_resolve env rootDir relativePath)" for ro
    by (simp add: rootRelativePath_def Let_def)
  have none: "tryResolveAppPath env rootDir relativePath ro = None" for ro
    using fp [of "case ro of None \<Rightarrow> \<lparr>strict = True, fullResolve = None\<rparr> | Some r \<Rightarrow> r"]
    by (elim disjE) (simp_all add: tryResolveAppPath_def Let_def rm e1 e2)
  have "findModelDefinitions_loop env rootDir (relativePath # after) registry =
        findModelDefinitions_loop env rootDir after registry" for registry
    by (simp add: none)
  then have "findModelDefinitions env rootDir (before @ relativePath # after) =
             findModelDefinitions env rootDir (before @ after)"
    by (simp add: findModelDefinitions_def findModelDefinitions_loop_append split: sum.splits)
  with none show ?thesis by simp
qed

text \<open>The theorem at work: the source \<open>./missing\<close> of the sample project.\<close>

theorem tryResolveAppPath_unresolved_witness:
  "list_all (\<lambda>p. \<not> existsSync sample_env p \<and> require_resolve sample_env p = None)
     (resolve_candidates sample_env ''/app'' ''./missing'')
   \<and> tryResolveAppPath sample_env ''/app'' ''./missing'' (Some \<lparr>strict = False, fullResolve = None\<rparr>) = None
   \<and> findModelDefinitions sample_env ''/app'' ([] @ ''./missing'' # [''./models'']) =
       findModelDefinitions sample_env ''/app'' ([] @ [''./models''])"
proof -
  have h: "list_all (\<lambda>p. \<not> existsSync sample_env p \<and> require_resolve sample_env p = None)
     (resolve_candidates sample_env ''/app'' ''./missing'')"
    by code_simp
  have "\<forall>p \<in> set (resolve_candidates sample_env ''/app'' ''./missing'').
             \<not> existsSync sample_env p \<and> require_resolve sample_env p = None"
    using h unfolding list_all_iff .
  from tryResolveAppPath_unresolved [OF this] h
  show ?thesis by blast
qed



section \<open>Topological sorting\<close>




lemma toposort_nodes_Nil: "toposort_nodes edges [] = Inr []"
  by (subst toposort_nodes.simps) simp

lemma toposort_nodes_step:
  "nodes \<noteq> [] \<Longrightarrow> toposort_nodes edges nodes =
     (case find (\<lambda>n. \<not> has_pred edges nodes n) nodes of
        None \<Rightarrow> Inl (Error ''Cyclic dependency'')
      | Some n \<Rightarrow>
          (case toposort_nodes edges (removeAll n nodes) of
             Inl e \<Rightarrow> Inl e
           | Inr rest \<Rightarrow> Inr (n # rest)))"
  by (subst toposort_nodes.simps) simp





lemma toposort_nodes_error:
  "toposort_nodes edges nodes = Inl e \<Longrightarrow> e = Error ''Cyclic dependency''"
proof (induction edges nodes rule: toposort_nodes.induct)
  case (1 edges nodes)
  from "1.prems" have ne: "nodes \<noteq> []" by (auto simp: toposort_nodes_Nil)
  show ?case
  proof (cases "find (\<lambda>n. \<not> has_pred edges nodes n) nodes")
    case None
    with ne "1.prems" show ?thesis by (simp add: toposort_nodes_step)
  next
    case (Some n)
    with ne "1.prems" have "toposort_nodes edges (removeAll n nodes) = Inl e"
      by (simp add: toposort_nodes_step split: sum.splits)
    from "1.IH" [OF ne Some this] show ?thesis .
  qed
qed




lemma toposort_Inl:
  "toposort edges = Inl e \<Longrightarrow> e = Error ''Cyclic dependency''"
  by (simp add: toposort_def toposort_nodes_error)


section \<open>The names to build\<close>

lemma addAllBaseModels_loop_distinct:
  "distinct result \<Longrightarrow> distinct (addAllBaseModels_loop registry modelNames result)"
  by (induction registry modelNames result rule: addAllBaseModels_loop.induct) auto



lemma addAllBaseModels_distinct: "distinct (addAllBaseModels registry modelNames)"
  by (simp add: addAllBaseModels_def addAllBaseModels_loop_distinct)




section \<open>From sorted names to instructions\<close>
















section \<open>Bases before derived models\<close>









section \<open>Cycles of base references\<close>













end
